theory Spec2Isabelle
  imports Main "HOL-Library.Sublist"
begin

section \<open>Data model of release-changelog.go\<close>

text \<open>
  The Go structs that the program decodes responses into, and the \<open>Release\<close> it posts.
  Go strings are byte sequences: \<open>string\<close>. A Go \<open>int\<close> is only compared with \<open>0\<close>
  in this program (no arithmetic), so it is a HOL \<open>int\<close>. A Go \<open>error\<close> is its message.
\<close>

type_synonym error = string

record User =
  Login :: string

record Author =
  User :: User

record PullRequestAuthor =
  Login :: string

record AssociatedPullRequest =
  Number :: int

record AssociatedPullRequests =
  Nodes :: "AssociatedPullRequest list"

record Commit =
  MessageHeadline :: string
  AbbreviatedOid :: string
  Author :: Author
  AssociatedPullRequests :: AssociatedPullRequests

record CommitNodes =
  Commit :: Commit

record Commits =
  Nodes :: "CommitNodes list"

record PullRequest =
  Title :: string
  CreatedAt :: string
  BaseRefName :: string
  HeadRefOid :: string
  Author :: PullRequestAuthor
  Commits :: Commits

record Object =
  Text :: string

record Repository =
  Name :: string
  PullRequest :: PullRequest
  Object :: Object

record QueryResponse =
  Repository :: Repository

record Release =
  TagName :: string
  TargetCommitish :: string
  Name :: string
  Body :: string

record PR =
  Number :: int

record PackageJson =
  Name :: string

record DistTags =
  Latest :: string

record RegistryResponse =
  DistTags :: DistTags

text \<open>The package-level variables that \<open>flag.Parse\<close> fills and \<open>main\<close> updates.\<close>

record globals =
  owner :: string
  repo :: string
  registry :: string
  tag :: string
  targetCommitish :: string
  pr :: int
  commit :: string
  dryRun :: bool
  kafkaTopic :: string

section \<open>The environment\<close>

text \<open>
  Requests as the program builds them. Every HTTP client of the program skips TLS
  certificate verification; that setting does not influence any result below and is left out.
\<close>

record http_request =
  req_method :: string
  req_url :: string
  req_headers :: "(string \<times> string) list"
  req_body :: "string option"

text \<open>A response: its status code and what \<open>ioutil.ReadAll\<close> gives for its body.\<close>

record http_response =
  StatusCode :: nat
  ReadAll :: "error + string"

datatype gql_value = VString string | VInt int

record gql_request =
  query :: string
  vars :: "(string \<times> gql_value) list"
  gql_headers :: "(string \<times> string) list"

datatype kafka_read = ReadError error | Message string

text \<open>
  Everything outside the program: the process environment, the message broker, the HTTP
  and GraphQL services, and the library functions whose code is not part of the repository
  (\<open>http.NewRequest\<close>, \<open>encoding/json\<close>, the \<open>%q\<close> verb of \<open>fmt\<close>).
  \<open>ReadMessage w n\<close> is what the \<open>n\<close>-th call of \<open>c.ReadMessage(-1)\<close> returns.
\<close>

record world =
  Getenv :: "string \<Rightarrow> string"
  NewConsumer :: "string \<Rightarrow> error option"
  ReadMessage :: "nat \<Rightarrow> kafka_read"
  Quote :: "string \<Rightarrow> string"
  NewRequest :: "string \<Rightarrow> string \<Rightarrow> error option"
  Do :: "http_request \<Rightarrow> error + http_response"
  Run :: "gql_request \<Rightarrow> error + QueryResponse"
  UnmarshalPackageJson :: "string \<Rightarrow> error + PackageJson"
  UnmarshalRegistryResponse :: "string \<Rightarrow> error + RegistryResponse"
  UnmarshalPRs :: "string \<Rightarrow> error + PR list"
  MarshalRelease :: "Release \<Rightarrow> error + string"

text \<open>The requests handed to \<open>client.Do\<close> and \<open>client.Run\<close>, in the order of the calls.\<close>

datatype call = Http http_request | Graphql gql_request

text \<open>
  How a helper function ends: \<open>log.Fatal\<close> inside it (the process exits with status 1),
  or a return of its value and its \<open>error\<close> (\<open>None\<close> is \<open>nil\<close>).
\<close>

datatype 'a ret = Fatal error | Return 'a "error option"

section \<open>The changelog\<close>

definition newline :: char where
  "newline = CHR 0x0A"

text \<open>One iteration of the loop of \<open>main\<close> over the commit nodes (line 218).\<close>

definition appendLine :: "string \<Rightarrow> CommitNodes \<Rightarrow> string" where
  "appendLine output node =
     output @ ''* '' @ MessageHeadline (Commit node) @ '' @''
       @ User.Login (User (Commit.Author (Commit node))) @ [newline]"

text \<open>The loop itself (lines 216 to 219): \<open>output\<close> starts empty.\<close>

definition buildChangelog :: "CommitNodes list \<Rightarrow> string" where
  "buildChangelog nodes = foldl appendLine [] nodes"

text \<open>The line of one commit, as the specification writes it.\<close>

definition changelogLine :: "CommitNodes \<Rightarrow> string" where
  "changelogLine node =
     ''* '' @ MessageHeadline (Commit node) @ '' @''
       @ User.Login (User (Commit.Author (Commit node))) @ [newline]"

definition mkCommit :: "string \<Rightarrow> string \<Rightarrow> CommitNodes" where
  "mkCommit headline login =
     \<lparr>Commit = \<lparr>MessageHeadline = headline, AbbreviatedOid = [],
        Author = \<lparr>User = \<lparr>User.Login = login\<rparr>\<rparr>,
        AssociatedPullRequests = \<lparr>AssociatedPullRequests.Nodes = []\<rparr>\<rparr>\<rparr>"

section \<open>The queries\<close>

text \<open>
  The two GraphQL documents, line by line. A Go raw string literal keeps its line breaks:
  each document starts with a line break and every line ends with one.
\<close>

definition rawLines :: "string list \<Rightarrow> string" where
  "rawLines ls = newline # concat (map (\<lambda>l. l @ [newline]) ls)"

definition PullRequestQuery :: string where
  "PullRequestQuery = rawLines
     [''query($owner: String!, $repo: String!, $pr: Int!) {'',
      ''  repository(owner: $owner, name: $repo) {'',
      ''    name'',
      ''    pullRequest(number: $pr) {'',
      ''      title baseRefName author { login } baseRefOid headRefOid createdAt'',
      ''      commits(first: 50) {'',
      ''        nodes {'',
      ''          commit {'',
      ''            messageHeadline'',
      ''            abbreviatedOid'',
      ''            author { user { login } }'',
      ''            associatedPullRequests(first: 1) {'',
      ''              nodes {'',
      ''                number'',
      ''              }'',
      ''            }'',
      ''          }'',
      ''        }'',
      ''      }'',
      ''    }'',
      ''  }'',
      ''}'']"

definition NpmPackageJsonQuery :: string where
  \<open>NpmPackageJsonQuery = rawLines
     [''query($owner: String!, $repo: String!) {'',
      ''  repository(owner: $owner, name: $repo) {'',
      ''    object(expression: "master:package.json") {'',
      ''      ... on Blob {'',
      ''        text'',
      ''      }'',
      ''    }'',
      ''  }'',
      ''}'']\<close>


section \<open>The helper functions\<close>

text \<open>\<open>strings.Contains(s, substr)\<close>: \<open>substr\<close> occurs in \<open>s\<close> as a contiguous run.\<close>

definition Contains :: "string \<Rightarrow> string \<Rightarrow> bool" where
  "Contains s substr = sublist substr s"

text \<open>
  The loop of \<open>subscribeToKafkaForRepoMessage\<close> (lines 259 to 268), entered when
  \<open>n\<close> messages have been read. It may never end: \<open>None\<close> is the loop that runs
  forever. It ends with the number of reads made and the payload that matched.
\<close>

partial_function (option) readLoop :: "world \<Rightarrow> string \<Rightarrow> nat \<Rightarrow> (nat \<times> string) option" where
  "readLoop w repo' n =
     (case ReadMessage w n of
        ReadError err \<Rightarrow> readLoop w repo' (Suc n)
      | Message v \<Rightarrow>
          if Contains v repo' then Some (Suc n, v)
          else readLoop w repo' (Suc n))"

text \<open>
  \<open>subscribeToKafkaForRepoMessage\<close>: the returned error, what it printed to standard
  output, and the number of messages it read. The result of \<open>c.Subscribe\<close> is dropped
  by the source. A listener that never returns is \<open>None\<close>.
\<close>

definition subscribeToKafkaForRepoMessage ::
  "world \<Rightarrow> string \<Rightarrow> string \<Rightarrow> string \<Rightarrow> (error option \<times> string \<times> nat) option" where
  "subscribeToKafkaForRepoMessage w bootstrapServers kafkaTopic' repo' =
     (case NewConsumer w bootstrapServers of
        Some err \<Rightarrow> Some (Some err, [], 0)
      | None \<Rightarrow>
          (case readLoop w repo' 0 of
             None \<Rightarrow> None
           | Some (n, v) \<Rightarrow>
               Some (None,
                 ''Subscribed to '' @ kafkaTopic' @ ''and waiting for message'' @ [newline]
                   @ [newline] @ Quote w v @ [newline]
                   @ repo' @ '' has been published'' @ [newline],
                 n)))"

definition registryRequest :: "string \<Rightarrow> string \<Rightarrow> http_request" where
  "registryRequest registry' name =
     \<lparr>req_method = ''GET'', req_url = registry' @ ''/'' @ name, req_headers = [],
      req_body = None\<rparr>"

definition getLatestVersion :: "world \<Rightarrow> string \<Rightarrow> string \<Rightarrow> string ret \<times> call list" where
  "getLatestVersion w registry' name =
     (let req = registryRequest registry' name in
      case NewRequest w ''GET'' (req_url req) of
        Some err \<Rightarrow> (Fatal err, [])
      | None \<Rightarrow>
          (case Do w req of
             Inl err \<Rightarrow> (Return [] (Some err), [Http req])
           | Inr resp \<Rightarrow>
               (case ReadAll resp of
                  Inl err \<Rightarrow> (Return [] (Some err), [Http req])
                | Inr body \<Rightarrow>
                    (case UnmarshalRegistryResponse w body of
                       Inl err \<Rightarrow> (Return [] (Some err), [Http req])
                     | Inr registryResponse \<Rightarrow>
                         (Return (Latest (DistTags registryResponse)) None, [Http req])))))"

definition packageJsonRequest :: "string \<Rightarrow> string \<Rightarrow> string \<Rightarrow> gql_request" where
  "packageJsonRequest githubToken owner' repo' =
     \<lparr>query = NpmPackageJsonQuery,
      vars = [(''owner'', VString owner'), (''repo'', VString repo')],
      gql_headers = [(''Authorization'', ''bearer '' @ githubToken)]\<rparr>"

definition getNpmPackageName ::
  "world \<Rightarrow> string \<Rightarrow> string \<Rightarrow> string \<Rightarrow> string ret \<times> call list" where
  "getNpmPackageName w githubToken owner' repo' =
     (let request = packageJsonRequest githubToken owner' repo' in
      case Run w request of
        Inl err \<Rightarrow> (Return [] (Some err), [Graphql request])
      | Inr respData \<Rightarrow>
          (case UnmarshalPackageJson w (Text (Object (Repository respData))) of
             Inl err \<Rightarrow> (Return [] (Some err), [Graphql request])
           | Inr packageJson \<Rightarrow>
               (Return (PackageJson.Name packageJson) None, [Graphql request])))"

text \<open>
  The request of \<open>getPullRequestNumber\<close>. Its URL is built from the package-level
  variable \<open>commit\<close>, not from the parameter \<open>commmit\<close>.
\<close>

definition pullsRequest :: "globals \<Rightarrow> string \<Rightarrow> string \<Rightarrow> string \<Rightarrow> http_request" where
  "pullsRequest g githubToken owner' repo' =
     \<lparr>req_method = ''GET'',
      req_url = ''https://api.github.com/repos/'' @ owner' @ ''/'' @ repo' @ ''/commits/''
        @ commit g @ ''/pulls'',
      req_headers = [(''Accept'', ''application/vnd.github.v3+json''),
        (''Authorization'', ''bearer '' @ githubToken)],
      req_body = None\<rparr>"

definition getPullRequestNumber ::
  "globals \<Rightarrow> world \<Rightarrow> string \<Rightarrow> string \<Rightarrow> string \<Rightarrow> string \<Rightarrow> int ret \<times> call list" where
  "getPullRequestNumber g w githubToken owner' repo' commmit =
     (let pr0 = 0;
          req = pullsRequest g githubToken owner' repo' in
      case NewRequest w ''GET'' (req_url req) of
        Some err \<Rightarrow> (Fatal err, [])
      | None \<Rightarrow>
          (case Do w req of
             Inl err \<Rightarrow> (Return pr0 (Some err), [Http req])
           | Inr resp \<Rightarrow>
               (case ReadAll resp of
                  Inl err \<Rightarrow> (Return pr0 (Some err), [Http req])
                | Inr body \<Rightarrow>
                    (case UnmarshalPRs w body of
                       Inl err \<Rightarrow> (Return pr0 (Some err), [Http req])
                     | Inr PRs \<Rightarrow>
                         (Return (if length PRs > 0 then PR.Number (PRs ! 0) else pr0) None,
                          [Http req])))))"

definition pullRequestRequest :: "string \<Rightarrow> string \<Rightarrow> string \<Rightarrow> int \<Rightarrow> gql_request" where
  "pullRequestRequest githubToken owner' repo' pr' =
     \<lparr>query = PullRequestQuery,
      vars = [(''owner'', VString owner'), (''repo'', VString repo'), (''pr'', VInt pr')],
      gql_headers = [(''Authorization'', ''bearer '' @ githubToken)]\<rparr>"

definition emptyRepository :: Repository where
  "emptyRepository =
     \<lparr>Repository.Name = [],
      PullRequest = \<lparr>Title = [], CreatedAt = [], BaseRefName = [], HeadRefOid = [],
        Author = \<lparr>PullRequestAuthor.Login = []\<rparr>, Commits = \<lparr>Commits.Nodes = []\<rparr>\<rparr>,
      Object = \<lparr>Text = []\<rparr>\<rparr>"

definition getRepositoryPullRequest ::
  "world \<Rightarrow> string \<Rightarrow> string \<Rightarrow> string \<Rightarrow> int \<Rightarrow> Repository ret \<times> call list" where
  "getRepositoryPullRequest w githubToken owner' repo' pr' =
     (let request = pullRequestRequest githubToken owner' repo' pr' in
      case Run w request of
        Inl err \<Rightarrow> (Return emptyRepository (Some err), [Graphql request])
      | Inr respData \<Rightarrow> (Return (Repository respData) None, [Graphql request]))"

definition releasesRequest :: "string \<Rightarrow> string \<Rightarrow> string \<Rightarrow> string \<Rightarrow> http_request" where
  "releasesRequest githubToken owner' repo' requestBody =
     \<lparr>req_method = ''POST'',
      req_url = ''https://api.github.com/repos/'' @ owner' @ ''/'' @ repo' @ ''/releases'',
      req_headers = [(''Accept'', ''application/vnd.github.v3+json''),
        (''Authorization'', ''bearer '' @ githubToken)],
      req_body = Some requestBody\<rparr>"

text \<open>
  \<open>publishRelease\<close>: the response of \<open>client.Do\<close> is closed without a look at its
  status or its body.
\<close>

definition publishRelease ::
  "world \<Rightarrow> string \<Rightarrow> string \<Rightarrow> string \<Rightarrow> Release \<Rightarrow> unit ret \<times> call list" where
  "publishRelease w githubToken owner' repo' release =
     (case MarshalRelease w release of
        Inl err \<Rightarrow> (Return () (Some err), [])
      | Inr requestBody \<Rightarrow>
          (let req = releasesRequest githubToken owner' repo' requestBody in
           case NewRequest w ''POST'' (req_url req) of
             Some err \<Rightarrow> (Fatal err, [])
           | None \<Rightarrow>
               (case Do w req of
                  Inl err \<Rightarrow> (Return () (Some err), [Http req])
                | Inr resp \<Rightarrow> (Return () None, [Http req]))))"

section \<open>The function main\<close>

text \<open>
  What one invocation leaves behind: the exit status, the message given to \<open>log.Fatal\<close>
  (\<open>None\<close> when the process did not die that way), the bytes on standard output, the
  requests made, the \<open>Release\<close> built at line 229 and the \<open>Release\<close> passed to
  \<open>publishRelease\<close>. \<open>log.Fatal\<close> and \<open>flag.Usage\<close> write to standard error only.
\<close>

record run =
  exitStatus :: nat
  fatal :: "error option"
  stdout :: string
  calls :: "call list"
  built :: "Release option"
  published :: "Release option"

text \<open>\<open>log.Fatal(err)\<close> after \<open>out\<close> was printed and \<open>cs\<close> was requested.\<close>

definition die :: "error \<Rightarrow> string \<Rightarrow> call list \<Rightarrow> run" where
  "die err out cs =
     \<lparr>exitStatus = 1, fatal = Some err, stdout = out, calls = cs, built = None,
      published = None\<rparr>"

text \<open>
  Lines 181 to 186: the listener runs only when both the broker address and the topic are
  set. The result is the listener's (no error, nothing printed, nothing read when skipped).
\<close>

definition triggerStage ::
  "globals \<Rightarrow> world \<Rightarrow> string \<Rightarrow> (error option \<times> string \<times> nat) option" where
  "triggerStage g w bootstrapServers =
     (if length bootstrapServers > 0 \<and> length (kafkaTopic g) > 0
      then subscribeToKafkaForRepoMessage w bootstrapServers (kafkaTopic g) (repo g)
      else Some (None, [], 0))"

text \<open>Lines 188 to 200: \<open>Inl\<close> is the \<open>log.Fatal\<close> of \<open>main\<close> or of a helper.\<close>

definition resolveTag :: "globals \<Rightarrow> world \<Rightarrow> string \<Rightarrow> (error + globals) \<times> call list" where
  "resolveTag g w githubToken =
     (if length (tag g) = 0 \<and> length (repo g) \<noteq> 0 then
        (case getNpmPackageName w githubToken (owner g) (repo g) of
           (Fatal err, c1) \<Rightarrow> (Inl err, c1)
         | (Return name (Some err), c1) \<Rightarrow> (Inl err, c1)
         | (Return name None, c1) \<Rightarrow>
             (case getLatestVersion w (registry g) name of
                (Fatal err, c2) \<Rightarrow> (Inl err, c1 @ c2)
              | (Return version (Some err), c2) \<Rightarrow> (Inl err, c1 @ c2)
              | (Return version None, c2) \<Rightarrow>
                  (Inr (g\<lparr>tag := ''v'' @ version\<rparr>), c1 @ c2)))
      else (Inr g, []))"

text \<open>Lines 202 to 208.\<close>

definition resolvePR :: "globals \<Rightarrow> world \<Rightarrow> string \<Rightarrow> (error + globals) \<times> call list" where
  "resolvePR g w githubToken =
     (if pr g = 0 \<and> length (repo g) \<noteq> 0 then
        (case getPullRequestNumber g w githubToken (owner g) (repo g) (commit g) of
           (Fatal err, c) \<Rightarrow> (Inl err, c)
         | (Return n (Some err), c) \<Rightarrow> (Inl err, c)
         | (Return n None, c) \<Rightarrow> (Inr (g\<lparr>pr := n\<rparr>), c))
      else (Inr g, []))"

text \<open>
  Lines 210 to 243, after \<open>out\<close> was printed and \<open>cs\<close> was requested. When \<open>pr\<close> is
  not positive, \<open>main\<close> returns and the process exits with status 0.
\<close>

definition releaseStage ::
  "globals \<Rightarrow> world \<Rightarrow> string \<Rightarrow> string \<Rightarrow> call list \<Rightarrow> run" where
  "releaseStage g w githubToken out cs =
     (if pr g > 0 then
        (case getRepositoryPullRequest w githubToken (owner g) (repo g) (pr g) of
           (Fatal err, c1) \<Rightarrow> die err out (cs @ c1)
         | (Return repository (Some err), c1) \<Rightarrow> die err out (cs @ c1)
         | (Return repository None, c1) \<Rightarrow>
             (let output = buildChangelog (Commits.Nodes (Commits (PullRequest repository))) in
              if tag g = [] then die ''Need to provide tag to publish release'' out (cs @ c1)
              else
                (let g1 = (if targetCommitish g = []
                           then g\<lparr>targetCommitish := BaseRefName (PullRequest repository)\<rparr>
                           else g);
                     release = \<lparr>TagName = tag g1, TargetCommitish = targetCommitish g1,
                                Name = tag g1, Body = output\<rparr>;
                     printed = out @ owner g1 @ ''/'' @ repo g1 @ '' - '' @ targetCommitish g1
                                 @ '':'' @ tag g1 @ [newline] @ output
                 in
                 if \<not> dryRun g1 then
                   (case publishRelease w githubToken (owner g1) (repo g1) release of
                      (Fatal err, c2) \<Rightarrow>
                        (die err out (cs @ c1 @ c2))
                          \<lparr>built := Some release, published := Some release\<rparr>
                    | (Return u (Some err), c2) \<Rightarrow>
                        (die err out (cs @ c1 @ c2))
                          \<lparr>built := Some release, published := Some release\<rparr>
                    | (Return u None, c2) \<Rightarrow>
                        \<lparr>exitStatus = 0, fatal = None, stdout = printed,
                         calls = cs @ c1 @ c2, built = Some release,
                         published = Some release\<rparr>)
                 else
                   \<lparr>exitStatus = 0, fatal = None, stdout = printed, calls = cs @ c1,
                    built = Some release, published = None\<rparr>)))
      else
        \<lparr>exitStatus = 0, fatal = None, stdout = out, calls = cs, built = None,
         published = None\<rparr>)"

text \<open>Lines 188 to 243.\<close>

definition afterTrigger :: "globals \<Rightarrow> world \<Rightarrow> string \<Rightarrow> string \<Rightarrow> run" where
  "afterTrigger g w githubToken out =
     (case resolveTag g w githubToken of
        (Inl err, c1) \<Rightarrow> die err out c1
      | (Inr g1, c1) \<Rightarrow>
          (case resolvePR g1 w githubToken of
             (Inl err, c2) \<Rightarrow> die err out (c1 @ c2)
           | (Inr g2, c2) \<Rightarrow> releaseStage g2 w githubToken out (c1 @ c2)))"

text \<open>
  \<open>main\<close>, from the parsed flags \<open>g\<close>. \<open>None\<close> is the process that waits for a
  matching message forever.
\<close>

definition main :: "globals \<Rightarrow> world \<Rightarrow> run option" where
  "main g w =
     (if length (repo g) = 0 then Some (die ''repo is a required parameter'' [] [])
      else if length (owner g) = 0 then Some (die ''owner is a required parameter'' [] [])
      else if length (registry g) = 0
        then Some (die ''registry is a required parameter'' [] [])
      else
        (let githubToken = Getenv w ''TOKEN'';
             bootstrapServers = Getenv w ''KAFKA_BOOTSTRAP_SERVERS'' in
         case triggerStage g w bootstrapServers of
           None \<Rightarrow> None
         | Some (Some err, out, n) \<Rightarrow> Some (die err out [])
         | Some (None, out, n) \<Rightarrow> Some (afterTrigger g w githubToken out)))"

section \<open>Concrete inputs\<close>

text \<open>The flag defaults of \<open>init\<close>, with the three required flags given.\<close>

definition flags :: "string \<Rightarrow> string \<Rightarrow> string \<Rightarrow> globals" where
  "flags owner' repo' registry' =
     \<lparr>owner = owner', repo = repo', registry = registry', tag = [], targetCommitish = [],
      pr = 0, commit = ''master'', dryRun = False, kafkaTopic = []\<rparr>"

definition mkRepository :: "string \<Rightarrow> CommitNodes list \<Rightarrow> Repository" where
  "mkRepository base nodes =
     emptyRepository\<lparr>PullRequest :=
       (PullRequest emptyRepository)\<lparr>BaseRefName := base, Commits := \<lparr>Commits.Nodes = nodes\<rparr>\<rparr>\<rparr>"

text \<open>
  A world in which every service answers: no broker address and no token are set, the
  registry's latest version is \<open>latest\<close>, the commit belongs to the pull requests \<open>prs\<close>,
  and every pull request has base branch \<open>base\<close> and the commits \<open>nodes\<close>.
\<close>

definition answering :: "string \<Rightarrow> PR list \<Rightarrow> string \<Rightarrow> CommitNodes list \<Rightarrow> world" where
  "answering latest prs base nodes =
     \<lparr>Getenv = (\<lambda>k. []),
      NewConsumer = (\<lambda>servers. None),
      ReadMessage = (\<lambda>n. ReadError ''timed out''),
      Quote = (\<lambda>s. [CHR 0x22] @ s @ [CHR 0x22]),
      NewRequest = (\<lambda>m u. None),
      Do = (\<lambda>req. Inr \<lparr>StatusCode = 200, ReadAll = Inr []\<rparr>),
      Run = (\<lambda>request. Inr \<lparr>Repository = mkRepository base nodes\<rparr>),
      UnmarshalPackageJson = (\<lambda>text. Inr \<lparr>PackageJson.Name = ''widget-pkg''\<rparr>),
      UnmarshalRegistryResponse = (\<lambda>b. Inr \<lparr>DistTags = \<lparr>Latest = latest\<rparr>\<rparr>),
      UnmarshalPRs = (\<lambda>b. Inr prs),
      MarshalRelease = (\<lambda>release. Inr (TagName release))\<rparr>"

text \<open>The broker of the scenario: the given reads, then read errors.\<close>

definition withBroker :: "kafka_read list \<Rightarrow> world \<Rightarrow> world" where
  "withBroker reads w =
     w\<lparr>Getenv := (\<lambda>k. if k = ''KAFKA_BOOTSTRAP_SERVERS'' then ''broker:9092'' else Getenv w k),
       ReadMessage := (\<lambda>n. if n < length reads then reads ! n else ReadError ''timed out'')\<rparr>"

text \<open>
  A world whose \<open>http.NewRequest\<close> refuses a URL with the malformed percent escape
  \<open>%zz\<close>, as \<open>url.Parse\<close> does.
\<close>

definition strictURLs :: "world \<Rightarrow> world" where
  "strictURLs w =
     w\<lparr>NewRequest := (\<lambda>m u. if Contains u ''%zz'' then Some ''invalid URL escape'' else None)\<rparr>"

text \<open>A world whose hosting service answers every HTTP request with a validation error.\<close>

definition rejecting :: "world \<Rightarrow> world" where
  "rejecting w =
     w\<lparr>Do := (\<lambda>req. Inr \<lparr>StatusCode = 422, ReadAll = Inr ''Validation Failed: already_exists''\<rparr>)\<rparr>"

text \<open>A world whose hosting service cannot be reached.\<close>

definition unreachable :: "world \<Rightarrow> world" where
  "unreachable w = w\<lparr>Do := (\<lambda>req. Inl ''connection refused'')\<rparr>"

section \<open>Predicates used in the statements\<close>

text \<open>
  The \<open>n\<close>-th read gave a message whose payload contains the repository name; a read
  error never matches.
\<close>

definition matching :: "world \<Rightarrow> string \<Rightarrow> nat \<Rightarrow> bool" where
  "matching w repo' n =
     (case ReadMessage w n of ReadError err \<Rightarrow> False | Message v \<Rightarrow> Contains v repo')"

definition payload :: "world \<Rightarrow> nat \<Rightarrow> string" where
  "payload w n = (case ReadMessage w n of ReadError err \<Rightarrow> [] | Message v \<Rightarrow> v)"

text \<open>What the listener prints when it returns after the payload \<open>v\<close>.\<close>

definition listenerOutput :: "world \<Rightarrow> string \<Rightarrow> string \<Rightarrow> string \<Rightarrow> string" where
  "listenerOutput w kafkaTopic' repo' v =
     ''Subscribed to '' @ kafkaTopic' @ ''and waiting for message'' @ [newline]
       @ [newline] @ Quote w v @ [newline]
       @ repo' @ '' has been published'' @ [newline]"

text \<open>A request is a publish request when it is a POST.\<close>

definition isPublish :: "call \<Rightarrow> bool" where
  "isPublish c = (case c of Http req \<Rightarrow> req_method req = ''POST'' | Graphql request \<Rightarrow> False)"

text \<open>A request asks for the details of a pull request when it runs \<open>PullRequestQuery\<close>.\<close>

definition isDetailsFetch :: "call \<Rightarrow> bool" where
  "isDetailsFetch c =
     (case c of Http req \<Rightarrow> False | Graphql request \<Rightarrow> query request = PullRequestQuery)"

section \<open>Properties of the changelog\<close>

lemma foldl_appendLine:
  "foldl appendLine acc nodes = acc @ concat (map changelogLine nodes)"
  by (induction nodes arbitrary: acc) (simp_all add: appendLine_def changelogLine_def)

lemma buildChangelog_concat:
  "buildChangelog nodes = concat (map changelogLine nodes)"
  by (simp add: buildChangelog_def foldl_appendLine)

lemma count_newline_changelogLine:
  "newline \<notin> set (MessageHeadline (Commit node)) \<Longrightarrow>
   newline \<notin> set (User.Login (User (Commit.Author (Commit node)))) \<Longrightarrow>
   count_list (changelogLine node) newline = 1"
  by (simp add: changelogLine_def newline_def)

lemma count_newline_changelog:
  "(\<forall>node \<in> set nodes. newline \<notin> set (MessageHeadline (Commit node)) \<and>
       newline \<notin> set (User.Login (User (Commit.Author (Commit node))))) \<Longrightarrow>
   count_list (concat (map changelogLine nodes)) newline = length nodes"
  by (induction nodes) (simp_all add: count_newline_changelogLine)

lemma count_newline_changelogLine_exact:
  "count_list (changelogLine node) newline =
     1 + count_list (MessageHeadline (Commit node)) newline
       + count_list (User.Login (User (Commit.Author (Commit node)))) newline"
  by (simp add: changelogLine_def newline_def)

lemma count_newline_changelog_exact:
  "count_list (concat (map changelogLine nodes)) newline =
     length nodes
       + sum_list (map (\<lambda>node. count_list (MessageHeadline (Commit node)) newline
           + count_list (User.Login (User (Commit.Author (Commit node)))) newline) nodes)"
  by (induction nodes) (simp_all add: count_newline_changelogLine_exact)

text \<open>
  C1. The changelog of a commit list is the concatenation, in input order, of one entry
  per commit, the entry of a commit being \<open>"* "\<close>, its headline, \<open>" @"\<close>, its
  author login and a line break, with nothing between the entries. The number of line
  breaks in it is the number of commits plus the number of line breaks inside the
  headlines and the logins: it is the number of commits when no headline and no login
  contains a line break.
\<close>

theorem buildChangelog_lines:
  "buildChangelog nodes =
     concat (map (\<lambda>node. ''* '' @ MessageHeadline (Commit node) @ '' @''
       @ User.Login (User (Commit.Author (Commit node))) @ [newline]) nodes)
   \<and> count_list (buildChangelog nodes) newline =
       length nodes
         + sum_list (map (\<lambda>node. count_list (MessageHeadline (Commit node)) newline
             + count_list (User.Login (User (Commit.Author (Commit node)))) newline) nodes)
   \<and> ((\<forall>node \<in> set nodes. newline \<notin> set (MessageHeadline (Commit node)) \<and>
          newline \<notin> set (User.Login (User (Commit.Author (Commit node)))))
        \<longrightarrow> count_list (buildChangelog nodes) newline = length nodes)"
proof -
  have "changelogLine = (\<lambda>node. ''* '' @ MessageHeadline (Commit node) @ '' @''
       @ User.Login (User (Commit.Author (Commit node))) @ [newline])"
    by (rule ext) (simp add: changelogLine_def)
  then show ?thesis
    using buildChangelog_concat [of nodes] count_newline_changelog [of nodes]
      count_newline_changelog_exact [of nodes]
    by simp
qed

theorem buildChangelog_lines_witness:
  "buildChangelog [mkCommit ''fix bug'' ''alice'', mkCommit ''add test'' ''bob'']
     = ''* fix bug @alice'' @ [newline] @ ''* add test @bob'' @ [newline]
   \<and> count_list (buildChangelog [mkCommit ''fix bug'' ''alice'', mkCommit ''add test'' ''bob''])
        newline = 2
   \<and> buildChangelog [] = []"
  using buildChangelog_lines [of "[mkCommit ''fix bug'' ''alice'', mkCommit ''add test'' ''bob'']"]
        buildChangelog_lines [of "[]"]
  by (simp add: mkCommit_def newline_def)

text \<open>
  One commit whose headline holds a line break: the changelog of this list of length 1
  has two lines.
\<close>

theorem buildChangelog_headline_with_line_break:
  "buildChangelog [mkCommit (''line1'' @ [newline] @ ''line2'') ''alice'']
     = ''* line1'' @ [newline] @ ''line2 @alice'' @ [newline]
   \<and> count_list (buildChangelog [mkCommit (''line1'' @ [newline] @ ''line2'') ''alice''])
        newline = 2
   \<and> length [mkCommit (''line1'' @ [newline] @ ''line2'') ''alice''] = 1"
  by (simp add: buildChangelog_def appendLine_def mkCommit_def newline_def)

section \<open>Properties of the pull request lookup\<close>

text \<open>
  C3. When the lookup's response decodes to a list, \<open>getPullRequestNumber\<close> returns 0
  with a nil error for the empty list, and the number of the first element for a non-empty
  list, whatever follows the first element.
\<close>

theorem getPullRequestNumber_first:
  assumes "NewRequest w ''GET'' (req_url (pullsRequest g githubToken owner' repo')) = None"
    and "Do w (pullsRequest g githubToken owner' repo') = Inr resp"
    and "ReadAll resp = Inr content"
    and "UnmarshalPRs w content = Inr PRs"
  shows "fst (getPullRequestNumber g w githubToken owner' repo' commmit) =
     Return (case PRs of [] \<Rightarrow> 0 | p # rest \<Rightarrow> PR.Number p) None"
  using assms by (cases PRs) (simp_all add: getPullRequestNumber_def)

theorem getPullRequestNumber_first_witness:
  "fst (getPullRequestNumber (flags ''acme'' ''widget'' ''https://registry.example'')
      (answering ''2.3.0'' [\<lparr>PR.Number = 42\<rparr>, \<lparr>PR.Number = 7\<rparr>] ''main'' [])
      [] ''acme'' ''widget'' ''master'') = Return 42 None
   \<and> fst (getPullRequestNumber (flags ''acme'' ''widget'' ''https://registry.example'')
      (answering ''2.3.0'' [] ''main'' [])
      [] ''acme'' ''widget'' ''master'') = Return 0 None"
  using getPullRequestNumber_first
      [where w = "answering ''2.3.0'' [\<lparr>PR.Number = 42\<rparr>, \<lparr>PR.Number = 7\<rparr>] ''main'' []"
         and g = "flags ''acme'' ''widget'' ''https://registry.example''"
         and githubToken = "[]" and owner' = "''acme''" and repo' = "''widget''"
         and resp = "\<lparr>StatusCode = 200, ReadAll = Inr []\<rparr>" and content = "[]"
         and PRs = "[\<lparr>PR.Number = 42\<rparr>, \<lparr>PR.Number = 7\<rparr>]" and commmit = "''master''"]
    getPullRequestNumber_first
      [where w = "answering ''2.3.0'' [] ''main'' []"
         and g = "flags ''acme'' ''widget'' ''https://registry.example''"
         and githubToken = "[]" and owner' = "''acme''" and repo' = "''widget''"
         and resp = "\<lparr>StatusCode = 200, ReadAll = Inr []\<rparr>" and content = "[]"
         and PRs = "[]" and commmit = "''master''"]
  by (simp add: answering_def)

section \<open>Properties of the trigger listener\<close>

lemma readLoop_hit:
  "matching w repo' n \<Longrightarrow> readLoop w repo' n = Some (Suc n, payload w n)"
  by (subst readLoop.simps) (simp add: matching_def payload_def split: kafka_read.splits)

lemma readLoop_skip:
  "\<not> matching w repo' n \<Longrightarrow> readLoop w repo' n = readLoop w repo' (Suc n)"
  by (subst readLoop.simps) (simp add: matching_def split: kafka_read.splits)

lemma readLoop_first:
  "k \<le> i \<Longrightarrow> matching w repo' i \<Longrightarrow>
   (\<forall>j. k \<le> j \<and> j < i \<longrightarrow> \<not> matching w repo' j) \<Longrightarrow>
   readLoop w repo' k = Some (Suc i, payload w i)"
proof (induction "i - k" arbitrary: k)
  case 0
  then have "k = i" by simp
  with 0 show ?case by (simp add: readLoop_hit)
next
  case (Suc d)
  then have "k < i" by simp
  with Suc.prems have "\<not> matching w repo' k" by simp
  then have "readLoop w repo' k = readLoop w repo' (Suc k)" by (rule readLoop_skip)
  moreover have "readLoop w repo' (Suc k) = Some (Suc i, payload w i)"
    using Suc.hyps(1) [of "Suc k"] Suc.hyps(2) Suc.prems \<open>k < i\<close> by simp
  ultimately show ?case by simp
qed

lemma readLoop_Some:
  assumes "readLoop w repo' k = Some y"
  shows "\<exists>i\<ge>k. matching w repo' i"
proof (rule readLoop.raw_induct [where P = "\<lambda>w r k y. \<exists>i\<ge>k. matching w r i"])
  show "readLoop w repo' k = Some y" by (rule assms)
next
  fix f :: "world \<Rightarrow> string \<Rightarrow> nat \<Rightarrow> (nat \<times> string) option"
  fix w r n y
  assume IH: "\<And>w r n y. f w r n = Some y \<Longrightarrow> \<exists>i\<ge>n. matching w r i"
  assume step: "(case ReadMessage w n of
        ReadError err \<Rightarrow> f w r (Suc n)
      | Message v \<Rightarrow> if Contains v r then Some (Suc n, v) else f w r (Suc n)) = Some y"
  show "\<exists>i\<ge>n. matching w r i"
  proof (cases "matching w r n")
    case True
    then have "n \<le> n \<and> matching w r n" by simp
    then show ?thesis by (rule exI)
  next
    case False
    with step have "f w r (Suc n) = Some y"
      by (simp add: matching_def split: kafka_read.splits)
    then have "\<exists>i\<ge>Suc n. matching w r i" by (rule IH)
    then obtain i where "Suc n \<le> i" and "matching w r i" by auto
    then have "n \<le> i \<and> matching w r i" by simp
    then show ?thesis by (rule exI)
  qed
qed

lemma readLoop_never:
  assumes no: "\<forall>i\<ge>k. \<not> matching w repo' i"
  shows "readLoop w repo' k = None"
proof (cases "readLoop w repo' k")
  case None
  then show ?thesis .
next
  case (Some y)
  from readLoop_Some [OF Some] obtain i where "k \<le> i" and "matching w repo' i" by auto
  with no show ?thesis by simp
qed

lemma ReadMessage_withBroker:
  "ReadMessage (withBroker reads w) n =
     (if n < length reads then reads ! n else ReadError ''timed out'')"
  by (simp add: withBroker_def)

lemma NewConsumer_withBroker: "NewConsumer (withBroker reads w) = NewConsumer w"
  by (simp add: withBroker_def)

lemma Quote_withBroker: "Quote (withBroker reads w) = Quote w"
  by (simp add: withBroker_def)

text \<open>
  C6. The listener's loop returns exactly at the first read that gives a message whose
  payload contains the repository name: reads before it, whether read errors or messages
  without the name, are passed over, and the number of reads made is the index of that
  read plus one. When no read ever matches, the loop does not return. With a consumer
  that could be created, \<open>subscribeToKafkaForRepoMessage\<close> then returns nil.
\<close>

theorem listener_returns_at_first_match:
  "(matching w repo' i \<and> (\<forall>j<i. \<not> matching w repo' j) \<longrightarrow>
      readLoop w repo' 0 = Some (Suc i, payload w i)
      \<and> (NewConsumer w servers = None \<longrightarrow>
           subscribeToKafkaForRepoMessage w servers topic repo' =
             Some (None, listenerOutput w topic repo' (payload w i), Suc i)))
   \<and> ((\<forall>n. \<not> matching w repo' n) \<longrightarrow>
      readLoop w repo' 0 = None
      \<and> (NewConsumer w servers = None \<longrightarrow>
           subscribeToKafkaForRepoMessage w servers topic repo' = None))"
proof (intro conjI impI)
  assume a: "matching w repo' i \<and> (\<forall>j<i. \<not> matching w repo' j)"
  then show r: "readLoop w repo' 0 = Some (Suc i, payload w i)"
    using readLoop_first [of 0 i w repo'] by simp
  assume "NewConsumer w servers = None"
  with r show "subscribeToKafkaForRepoMessage w servers topic repo' =
      Some (None, listenerOutput w topic repo' (payload w i), Suc i)"
    by (simp add: subscribeToKafkaForRepoMessage_def listenerOutput_def)
next
  assume a: "\<forall>n. \<not> matching w repo' n"
  then show r: "readLoop w repo' 0 = None"
    using readLoop_never [of 0 w repo'] by simp
  assume "NewConsumer w servers = None"
  with r show "subscribeToKafkaForRepoMessage w servers topic repo' = None"
    by (simp add: subscribeToKafkaForRepoMessage_def)
qed

theorem listener_returns_at_first_match_witness:
  "readLoop (withBroker [Message ''unrelated-repo v1'', Message ''widget v2'']
       (answering [] [] [] [])) ''widget'' 0 = Some (2, ''widget v2'')
   \<and> subscribeToKafkaForRepoMessage
       (withBroker [Message ''unrelated-repo v1'', Message ''widget v2'']
         (answering [] [] [] [])) ''broker:9092'' ''releases'' ''widget'' =
       Some (None,
         listenerOutput (answering [] [] [] []) ''releases'' ''widget'' ''widget v2'', 2)
   \<and> readLoop (withBroker [ReadError ''broker down'', Message ''widget v2'']
       (answering [] [] [] [])) ''widget'' 0 = Some (2, ''widget v2'')
   \<and> readLoop (withBroker [Message ''unrelated-repo v1''] (answering [] [] [] []))
       ''widget'' 0 = None"
proof -
  have c0: "\<not> Contains ''unrelated-repo v1'' ''widget''"
    unfolding Contains_def by code_simp
  have c1: "Contains ''widget v2'' ''widget''"
    unfolding Contains_def by code_simp
  have nc: "NewConsumer (answering [] [] [] []) ''broker:9092'' = None"
    by (simp add: answering_def)
  have lo: "listenerOutput (withBroker [Message ''unrelated-repo v1'', Message ''widget v2'']
       (answering [] [] [] [])) = listenerOutput (answering [] [] [] [])"
    by (intro ext) (simp add: listenerOutput_def Quote_withBroker)
  show ?thesis
    using listener_returns_at_first_match
        [of "withBroker [Message ''unrelated-repo v1'', Message ''widget v2'']
          (answering [] [] [] [])" "''widget''" "Suc 0" "''broker:9092''" "''releases''"]
      listener_returns_at_first_match
        [of "withBroker [ReadError ''broker down'', Message ''widget v2'']
          (answering [] [] [] [])" "''widget''" "Suc 0" "''broker:9092''" "''releases''"]
      listener_returns_at_first_match
        [of "withBroker [Message ''unrelated-repo v1''] (answering [] [] [] [])"
          "''widget''" 0 "''broker:9092''" "''releases''"]
    by (simp add: matching_def payload_def ReadMessage_withBroker NewConsumer_withBroker
        c0 c1 nc lo)
qed

section \<open>How main decomposes\<close>

lemma resolveTag_Inr:
  assumes "resolveTag g w githubToken = (Inr g1, c1)"
  shows "g1 = g\<lparr>tag := tag g1\<rparr>"
    and "tag g \<noteq> [] \<Longrightarrow> g1 = g \<and> c1 = []"
    and "repo g \<noteq> [] \<Longrightarrow> tag g1 \<noteq> []"
  using assms
  by (auto simp: resolveTag_def split: if_splits prod.splits ret.splits option.splits)

lemma resolvePR_Inr:
  assumes "resolvePR g w githubToken = (Inr g2, c2)"
  shows "g2 = g\<lparr>pr := pr g2\<rparr>"
    and "pr g \<noteq> 0 \<Longrightarrow> g2 = g \<and> c2 = []"
  using assms
  by (auto simp: resolvePR_def split: if_splits prod.splits ret.splits option.splits)

lemma releaseStage_not_positive:
  "\<not> pr g > 0 \<Longrightarrow> releaseStage g w githubToken out cs =
     \<lparr>exitStatus = 0, fatal = None, stdout = out, calls = cs, built = None,
      published = None\<rparr>"
  by (simp add: releaseStage_def)

lemma releaseStage_built:
  assumes "built (releaseStage g w githubToken out cs) = Some rel"
  shows "pr g > 0 \<and> tag g \<noteq> [] \<and>
    (\<exists>repository c1.
       getRepositoryPullRequest w githubToken (owner g) (repo g) (pr g) =
         (Return repository None, c1)
       \<and> rel = \<lparr>TagName = tag g,
           TargetCommitish = (if targetCommitish g = []
             then BaseRefName (PullRequest repository) else targetCommitish g),
           Name = tag g,
           Body = buildChangelog (Commits.Nodes (Commits (PullRequest repository)))\<rparr>)"
  using assms
  by (auto simp: releaseStage_def die_def Let_def
      split: if_splits prod.splits ret.splits option.splits)

lemma releaseStage_published:
  assumes "published (releaseStage g w githubToken out cs) = Some rel"
  shows "built (releaseStage g w githubToken out cs) = Some rel \<and> \<not> dryRun g"
  using assms
  by (auto simp: releaseStage_def die_def Let_def
      split: if_splits prod.splits ret.splits option.splits)

lemma main_cases:
  assumes "main g w = Some r"
  shows "(\<exists>err out. r = die err out [])
    \<or> (\<exists>out n. repo g \<noteq> [] \<and> owner g \<noteq> [] \<and> registry g \<noteq> []
         \<and> triggerStage g w (Getenv w ''KAFKA_BOOTSTRAP_SERVERS'') = Some (None, out, n)
         \<and> r = afterTrigger g w (Getenv w ''TOKEN'') out)"
  using assms
  by (auto simp: main_def Let_def split: if_splits option.splits prod.splits)

lemma afterTrigger_cases:
  "(\<exists>err cs. afterTrigger g w githubToken out = die err out cs)
   \<or> (\<exists>g1 c1 g2 c2. resolveTag g w githubToken = (Inr g1, c1)
        \<and> resolvePR g1 w githubToken = (Inr g2, c2)
        \<and> afterTrigger g w githubToken out = releaseStage g2 w githubToken out (c1 @ c2))"
  by (auto simp: afterTrigger_def split: prod.splits sum.splits)

lemma main_built:
  assumes "main g w = Some r" and "built r = Some rel"
  shows "\<exists>out n g1 c1 g2 c2. repo g \<noteq> [] \<and> owner g \<noteq> [] \<and> registry g \<noteq> []
    \<and> triggerStage g w (Getenv w ''KAFKA_BOOTSTRAP_SERVERS'') = Some (None, out, n)
    \<and> resolveTag g w (Getenv w ''TOKEN'') = (Inr g1, c1)
    \<and> resolvePR g1 w (Getenv w ''TOKEN'') = (Inr g2, c2)
    \<and> r = releaseStage g2 w (Getenv w ''TOKEN'') out (c1 @ c2)"
proof -
  from main_cases [OF assms(1)] assms(2) obtain out n where
    a: "repo g \<noteq> []" "owner g \<noteq> []" "registry g \<noteq> []"
      "triggerStage g w (Getenv w ''KAFKA_BOOTSTRAP_SERVERS'') = Some (None, out, n)"
      "r = afterTrigger g w (Getenv w ''TOKEN'') out"
    by (auto simp: die_def)
  from afterTrigger_cases [of g w "Getenv w ''TOKEN''" out] a(5) assms(2)
  obtain g1 c1 g2 c2 where
    "resolveTag g w (Getenv w ''TOKEN'') = (Inr g1, c1)"
    "resolvePR g1 w (Getenv w ''TOKEN'') = (Inr g2, c2)"
    "r = releaseStage g2 w (Getenv w ''TOKEN'') out (c1 @ c2)"
    by (auto simp: die_def)
  with a show ?thesis by blast
qed

lemma main_run:
  assumes "repo g \<noteq> []" and "owner g \<noteq> []" and "registry g \<noteq> []"
    and "triggerStage g w (Getenv w ''KAFKA_BOOTSTRAP_SERVERS'') = Some (None, pre, n)"
    and "resolveTag g w (Getenv w ''TOKEN'') = (Inr g1, c1)"
    and "resolvePR g1 w (Getenv w ''TOKEN'') = (Inr g2, c2)"
  shows "main g w = Some (releaseStage g2 w (Getenv w ''TOKEN'') pre (c1 @ c2))"
  using assms by (simp add: main_def afterTrigger_def)

lemma queries_differ: "NpmPackageJsonQuery \<noteq> PullRequestQuery"
  by (simp add: NpmPackageJsonQuery_def PullRequestQuery_def rawLines_def)

lemma getNpmPackageName_calls:
  "getNpmPackageName w githubToken owner' repo' = (res, cs) \<Longrightarrow>
   filter isPublish cs = [] \<and> filter isDetailsFetch cs = []"
  by (auto simp: getNpmPackageName_def Let_def isPublish_def isDetailsFetch_def
      packageJsonRequest_def queries_differ split: sum.splits)

lemma getLatestVersion_calls:
  "getLatestVersion w registry' name = (res, cs) \<Longrightarrow>
   filter isPublish cs = [] \<and> filter isDetailsFetch cs = []"
  by (auto simp: getLatestVersion_def Let_def isPublish_def isDetailsFetch_def
      registryRequest_def split: sum.splits option.splits)

lemma getPullRequestNumber_calls:
  "getPullRequestNumber g w githubToken owner' repo' commmit = (res, cs) \<Longrightarrow>
   filter isPublish cs = [] \<and> filter isDetailsFetch cs = []"
  by (auto simp: getPullRequestNumber_def Let_def isPublish_def isDetailsFetch_def
      pullsRequest_def split: sum.splits option.splits)

lemma resolveTag_calls:
  assumes "resolveTag g w githubToken = (res, cs)"
  shows "filter isPublish cs = [] \<and> filter isDetailsFetch cs = []"
proof (cases "length (tag g) = 0 \<and> length (repo g) \<noteq> 0")
  case False
  with assms show ?thesis by (auto simp: resolveTag_def)
next
  case True
  obtain r1 c1 where n: "getNpmPackageName w githubToken (owner g) (repo g) = (r1, c1)"
    by (cases "getNpmPackageName w githubToken (owner g) (repo g)")
  note p1 = getNpmPackageName_calls [OF n]
  show ?thesis
  proof (cases "\<exists>name. r1 = Return name None")
    case False
    with assms True n p1 show ?thesis
      by (auto simp: resolveTag_def split: ret.splits option.splits)
  next
    case True
    then obtain name where r1: "r1 = Return name None" by auto
    obtain r2 c2 where v: "getLatestVersion w (registry g) name = (r2, c2)"
      by (cases "getLatestVersion w (registry g) name")
    note p2 = getLatestVersion_calls [OF v]
    from assms \<open>length (tag g) = 0 \<and> length (repo g) \<noteq> 0\<close> n r1 v have "cs = c1 @ c2"
      by (auto simp: resolveTag_def split: ret.splits option.splits)
    with p1 p2 show ?thesis by simp
  qed
qed

lemma resolvePR_calls:
  assumes "resolvePR g w githubToken = (res, cs)"
  shows "filter isPublish cs = [] \<and> filter isDetailsFetch cs = []"
proof (cases "pr g = 0 \<and> length (repo g) \<noteq> 0")
  case False
  with assms show ?thesis by (auto simp: resolvePR_def)
next
  case True
  obtain r1 c1 where
    n: "getPullRequestNumber g w githubToken (owner g) (repo g) (commit g) = (r1, c1)"
    by (cases "getPullRequestNumber g w githubToken (owner g) (repo g) (commit g)")
  note p1 = getPullRequestNumber_calls [OF n]
  from assms True n have "cs = c1"
    by (auto simp: resolvePR_def split: ret.splits option.splits)
  with p1 show ?thesis by simp
qed

lemma resolveTag_fields:
  assumes "resolveTag g w githubToken = (Inr g1, c1)"
  shows "owner g1 = owner g" and "repo g1 = repo g" and "registry g1 = registry g"
    and "targetCommitish g1 = targetCommitish g" and "pr g1 = pr g"
    and "commit g1 = commit g" and "dryRun g1 = dryRun g" and "kafkaTopic g1 = kafkaTopic g"
  using assms
  by (auto simp: resolveTag_def split: if_splits prod.splits ret.splits option.splits)

lemma resolvePR_fields:
  assumes "resolvePR g w githubToken = (Inr g2, c2)"
  shows "owner g2 = owner g" and "repo g2 = repo g" and "registry g2 = registry g"
    and "targetCommitish g2 = targetCommitish g" and "tag g2 = tag g"
    and "commit g2 = commit g" and "dryRun g2 = dryRun g" and "kafkaTopic g2 = kafkaTopic g"
  using assms
  by (auto simp: resolvePR_def split: if_splits prod.splits ret.splits option.splits)




lemma getRepositoryPullRequest_calls:
  "snd (getRepositoryPullRequest w githubToken owner' repo' pr') =
     [Graphql (pullRequestRequest githubToken owner' repo' pr')]"
  by (simp add: getRepositoryPullRequest_def Let_def split: sum.splits)

lemma getRepositoryPullRequest_Return:
  "getRepositoryPullRequest w githubToken owner' repo' pr' = (Return repository None, c) \<longleftrightarrow>
     Run w (pullRequestRequest githubToken owner' repo' pr')
       = Inr \<lparr>Repository = repository\<rparr>
     \<and> c = [Graphql (pullRequestRequest githubToken owner' repo' pr')]"
  by (cases "Run w (pullRequestRequest githubToken owner' repo' pr')")
     (auto simp: getRepositoryPullRequest_def Let_def)

lemma publishRelease_calls:
  "publishRelease w githubToken owner' repo' release = (res, cs) \<Longrightarrow>
   filter isDetailsFetch cs = []"
  by (auto simp: publishRelease_def Let_def isDetailsFetch_def
      split: sum.splits option.splits)

lemma isDetailsFetch_pullRequestRequest:
  "isDetailsFetch (Graphql (pullRequestRequest githubToken owner' repo' pr'))"
  by (simp add: isDetailsFetch_def pullRequestRequest_def)

lemma isPublish_Graphql:
  "\<not> isPublish (Graphql request)"
  by (simp add: isPublish_def)

lemma isPublish_releasesRequest:
  "isPublish (Http (releasesRequest githubToken owner' repo' content))"
  by (simp add: isPublish_def releasesRequest_def)

lemma releaseStage_fetches_once:
  assumes "built (releaseStage g w githubToken out cs) = Some rel"
  shows "filter isDetailsFetch (calls (releaseStage g w githubToken out cs)) =
     filter isDetailsFetch cs @ [Graphql (pullRequestRequest githubToken (owner g) (repo g) (pr g))]"
proof -
  from releaseStage_built [OF assms] obtain repository c1 where
    p: "pr g > 0" "tag g \<noteq> []"
    and f: "getRepositoryPullRequest w githubToken (owner g) (repo g) (pr g)
        = (Return repository None, c1)"
    by blast
  from f have c1: "c1 = [Graphql (pullRequestRequest githubToken (owner g) (repo g) (pr g))]"
    by (simp add: getRepositoryPullRequest_Return)
  have q: "filter isDetailsFetch (snd (publishRelease w githubToken owner' repo' release)) = []"
    for owner' repo' release
    using publishRelease_calls [of w githubToken owner' repo' release]
    by (cases "publishRelease w githubToken owner' repo' release") simp
  have "\<exists>c2. calls (releaseStage g w githubToken out cs) = cs @ c1 @ c2
      \<and> filter isDetailsFetch c2 = []"
  proof (cases "dryRun g")
    case True
    with p f show ?thesis by (simp add: releaseStage_def Let_def)
  next
    case False
    let ?rel = "\<lparr>TagName = tag g, TargetCommitish = (if targetCommitish g = []
          then BaseRefName (PullRequest repository) else targetCommitish g),
        Name = tag g, Body = buildChangelog (Commits.Nodes (Commits (PullRequest repository)))\<rparr>"
    obtain res c2 where pb: "publishRelease w githubToken (owner g) (repo g) ?rel = (res, c2)"
      by (cases "publishRelease w githubToken (owner g) (repo g) ?rel")
    from publishRelease_calls [OF pb] have "filter isDetailsFetch c2 = []" .
    moreover from False p f pb have "calls (releaseStage g w githubToken out cs) = cs @ c1 @ c2"
      by (auto simp: releaseStage_def Let_def die_def split: ret.splits option.splits)
    ultimately show ?thesis by blast
  qed
  then obtain c2 where "calls (releaseStage g w githubToken out cs) = cs @ c1 @ c2"
    and "filter isDetailsFetch c2 = []" by blast
  with c1 show ?thesis by (simp add: isDetailsFetch_pullRequestRequest)
qed

lemma publishRelease_snd:
  "snd (publishRelease w githubToken owner' repo' release) =
     (case MarshalRelease w release of
        Inl err \<Rightarrow> []
      | Inr content \<Rightarrow>
          (case NewRequest w ''POST'' (req_url (releasesRequest githubToken owner' repo' content)) of
             Some err \<Rightarrow> []
           | None \<Rightarrow> [Http (releasesRequest githubToken owner' repo' content)]))"
  by (simp add: publishRelease_def Let_def split: sum.splits option.splits)

lemma publishRelease_isPublish:
  "filter isPublish (snd (publishRelease w githubToken owner' repo' release)) =
     snd (publishRelease w githubToken owner' repo' release)"
  by (simp add: publishRelease_snd isPublish_releasesRequest split: sum.splits option.splits)

lemma releaseStage_publish_calls:
  "filter isPublish (calls (releaseStage g w githubToken out cs)) =
     filter isPublish cs @
       (case published (releaseStage g w githubToken out cs) of
          None \<Rightarrow> []
        | Some rel \<Rightarrow> snd (publishRelease w githubToken (owner g) (repo g) rel))"
proof (cases "pr g > 0")
  case False
  then show ?thesis by (simp add: releaseStage_def)
next
  case True
  obtain res c1 where
    f: "getRepositoryPullRequest w githubToken (owner g) (repo g) (pr g) = (res, c1)"
    by (cases "getRepositoryPullRequest w githubToken (owner g) (repo g) (pr g)")
  with getRepositoryPullRequest_calls [of w githubToken "owner g" "repo g" "pr g"]
  have c1: "filter isPublish c1 = []" by (simp add: isPublish_def)
  show ?thesis
  proof (cases "\<exists>repository. res = Return repository None \<and> tag g \<noteq> [] \<and> \<not> dryRun g")
    case False
    with True f c1 show ?thesis
      by (auto simp: releaseStage_def die_def Let_def split: ret.splits option.splits)
  next
    case True
    then obtain repository where r: "res = Return repository None" "tag g \<noteq> []" "\<not> dryRun g"
      by blast
    let ?rel = "\<lparr>TagName = tag g, TargetCommitish = (if targetCommitish g = []
          then BaseRefName (PullRequest repository) else targetCommitish g),
        Name = tag g, Body = buildChangelog (Commits.Nodes (Commits (PullRequest repository)))\<rparr>"
    obtain pres c2 where pb: "publishRelease w githubToken (owner g) (repo g) ?rel = (pres, c2)"
      by (cases "publishRelease w githubToken (owner g) (repo g) ?rel")
    from publishRelease_isPublish [of w githubToken "owner g" "repo g" ?rel] pb
    have c2: "filter isPublish c2 = c2" by simp
    from \<open>pr g > 0\<close> f r pb
    have "calls (releaseStage g w githubToken out cs) = cs @ c1 @ c2
        \<and> published (releaseStage g w githubToken out cs) = Some ?rel"
      by (auto simp: releaseStage_def die_def Let_def split: ret.splits option.splits)
    with c1 c2 pb show ?thesis by simp
  qed
qed

lemma afterTrigger_publish_calls:
  "filter isPublish (calls (afterTrigger g w githubToken out)) =
     (case published (afterTrigger g w githubToken out) of
        None \<Rightarrow> []
      | Some rel \<Rightarrow> snd (publishRelease w githubToken (owner g) (repo g) rel))"
proof -
  obtain t c1 where t: "resolveTag g w githubToken = (t, c1)"
    by (cases "resolveTag g w githubToken")
  note n1 = resolveTag_calls [OF t]
  show ?thesis
  proof (cases t)
    case (Inl err)
    with t n1 show ?thesis by (simp add: afterTrigger_def die_def)
  next
    case (Inr g1)
    obtain p c2 where p: "resolvePR g1 w githubToken = (p, c2)"
      by (cases "resolvePR g1 w githubToken")
    note n2 = resolvePR_calls [OF p]
    show ?thesis
    proof (cases p)
      case (Inl err)
      with t \<open>t = Inr g1\<close> p n1 n2 show ?thesis by (simp add: afterTrigger_def die_def)
    next
      case (Inr g2)
      from t \<open>t = Inr g1\<close> have t': "resolveTag g w githubToken = (Inr g1, c1)" by simp
      from p Inr have p': "resolvePR g1 w githubToken = (Inr g2, c2)" by simp
      have o: "owner g2 = owner g" "repo g2 = repo g"
        using resolveTag_fields [OF t'] resolvePR_fields [OF p'] by simp_all
      have "afterTrigger g w githubToken out = releaseStage g2 w githubToken out (c1 @ c2)"
        using t' p' by (simp add: afterTrigger_def)
      with releaseStage_publish_calls [of g2 w githubToken out "c1 @ c2"] n1 n2 o
      show ?thesis by (simp cong: option.case_cong)
    qed
  qed
qed

lemma main_publish_calls:
  assumes "main g w = Some r"
  shows "filter isPublish (calls r) =
     (case published r of
        None \<Rightarrow> []
      | Some rel \<Rightarrow> snd (publishRelease w (Getenv w ''TOKEN'') (owner g) (repo g) rel))"
  using main_cases [OF assms]
    afterTrigger_publish_calls [of g w "Getenv w ''TOKEN''"]
  by (auto simp: die_def)

lemma main_published:
  assumes "main g w = Some r" and "published r = Some rel"
  shows "built r = Some rel"
proof -
  from main_cases [OF assms(1)] assms(2) obtain out where
    "r = afterTrigger g w (Getenv w ''TOKEN'') out"
    by (auto simp: die_def)
  with afterTrigger_cases [of g w "Getenv w ''TOKEN''" out] assms(2)
  obtain g2 cs where "r = releaseStage g2 w (Getenv w ''TOKEN'') out cs"
    by (auto simp: die_def)
  with releaseStage_published [of g2 w "Getenv w ''TOKEN''" out cs rel] assms(2)
  show ?thesis by simp
qed





lemma triggerStage_skipped:
  "Getenv w ''KAFKA_BOOTSTRAP_SERVERS'' = [] \<or> kafkaTopic g = [] \<Longrightarrow>
   triggerStage g w (Getenv w ''KAFKA_BOOTSTRAP_SERVERS'') = Some (None, [], 0)"
  by (auto simp: triggerStage_def)



section \<open>Runs in the concrete worlds\<close>

lemmas run_defs = main_def triggerStage_def afterTrigger_def resolveTag_def resolvePR_def
  releaseStage_def getNpmPackageName_def getLatestVersion_def getPullRequestNumber_def
  getRepositoryPullRequest_def publishRelease_def die_def Let_def

lemma answering_sel:
  "Getenv (answering v prs b ns) k = []"
  "NewConsumer (answering v prs b ns) servers = None"
  "NewRequest (answering v prs b ns) m u = None"
  "Do (answering v prs b ns) req = Inr \<lparr>StatusCode = 200, ReadAll = Inr []\<rparr>"
  "Run (answering v prs b ns) request = Inr \<lparr>Repository = mkRepository b ns\<rparr>"
  "UnmarshalPackageJson (answering v prs b ns) t = Inr \<lparr>PackageJson.Name = ''widget-pkg''\<rparr>"
  "UnmarshalRegistryResponse (answering v prs b ns) content
     = Inr \<lparr>DistTags = \<lparr>Latest = v\<rparr>\<rparr>"
  "UnmarshalPRs (answering v prs b ns) content = Inr prs"
  "MarshalRelease (answering v prs b ns) release = Inr (TagName release)"
  by (simp_all add: answering_def)

lemma mkRepository_sel:
  "BaseRefName (PullRequest (mkRepository b ns)) = b"
  "Commits.Nodes (Commits (PullRequest (mkRepository b ns))) = ns"
  by (simp_all add: mkRepository_def emptyRepository_def)

lemma withBroker_sel:
  "Getenv (withBroker reads w) k =
     (if k = ''KAFKA_BOOTSTRAP_SERVERS'' then ''broker:9092'' else Getenv w k)"
  "NewRequest (withBroker reads w) = NewRequest w"
  "Do (withBroker reads w) = Do w"
  "Run (withBroker reads w) = Run w"
  "UnmarshalPackageJson (withBroker reads w) = UnmarshalPackageJson w"
  "UnmarshalRegistryResponse (withBroker reads w) = UnmarshalRegistryResponse w"
  "UnmarshalPRs (withBroker reads w) = UnmarshalPRs w"
  "MarshalRelease (withBroker reads w) = MarshalRelease w"
  by (simp_all add: withBroker_def)

lemma full_run:
  "main (flags ''acme'' ''widget'' ''https://registry.example'')
     (answering ''2.3.0'' [\<lparr>PR.Number = 42\<rparr>, \<lparr>PR.Number = 7\<rparr>] ''main''
        [mkCommit ''fix bug'' ''alice'', mkCommit ''add test'' ''bob'']) =
   Some \<lparr>exitStatus = 0, fatal = None,
     stdout = ''acme/widget - main:v2.3.0'' @ [newline]
       @ buildChangelog [mkCommit ''fix bug'' ''alice'', mkCommit ''add test'' ''bob''],
     calls = [Graphql (packageJsonRequest [] ''acme'' ''widget''),
       Http (registryRequest ''https://registry.example'' ''widget-pkg''),
       Http (pullsRequest (flags ''acme'' ''widget'' ''https://registry.example'') []
         ''acme'' ''widget''),
       Graphql (pullRequestRequest [] ''acme'' ''widget'' 42),
       Http (releasesRequest [] ''acme'' ''widget'' ''v2.3.0'')],
     built = Some \<lparr>TagName = ''v2.3.0'', TargetCommitish = ''main'', Name = ''v2.3.0'',
       Body = buildChangelog [mkCommit ''fix bug'' ''alice'', mkCommit ''add test'' ''bob'']\<rparr>,
     published = Some \<lparr>TagName = ''v2.3.0'', TargetCommitish = ''main'', Name = ''v2.3.0'',
       Body = buildChangelog [mkCommit ''fix bug'' ''alice'', mkCommit ''add test'' ''bob'']\<rparr>\<rparr>"
  by (simp add: run_defs answering_sel mkRepository_sel flags_def pullsRequest_def)

lemma listener_run:
  "subscribeToKafkaForRepoMessage (withBroker [Message ''widget v2''] (answering v prs b ns))
     servers topic ''widget'' =
   Some (None,
     ''Subscribed to '' @ topic @ ''and waiting for message'' @ [newline, newline, CHR 0x22]
       @ ''widget v2'' @ [CHR 0x22, newline] @ ''widget has been published'' @ [newline],
     1)"
proof -
  have c: "Contains ''widget v2'' ''widget''"
    unfolding Contains_def by code_simp
  then have "matching (withBroker [Message ''widget v2''] (answering v prs b ns)) ''widget'' 0"
    by (simp add: matching_def ReadMessage_withBroker)
  from readLoop_hit [OF this]
  have "readLoop (withBroker [Message ''widget v2''] (answering v prs b ns)) ''widget'' 0
      = Some (1, ''widget v2'')"
    by (simp add: payload_def ReadMessage_withBroker)
  then show ?thesis
    by (simp add: subscribeToKafkaForRepoMessage_def NewConsumer_withBroker Quote_withBroker
        answering_def)
qed

section \<open>Properties of the version resolution\<close>

text \<open>
  C4. With no tag given, when the package name was read and the registry's response
  decodes, \<open>getLatestVersion\<close> returns the \<open>latest\<close> field of the \<open>dist-tags\<close> as it
  is, the tag becomes the letter \<open>v\<close> followed by that string, whatever the string is, and
  every release that \<open>main\<close> builds carries that tag as its tag name and its name.
\<close>

theorem resolved_tag_is_v_version:
  assumes "tag g = []" and "repo g \<noteq> []"
    and "getNpmPackageName w (Getenv w ''TOKEN'') (owner g) (repo g) = (Return name None, c1)"
    and "NewRequest w ''GET'' (req_url (registryRequest (registry g) name)) = None"
    and "Do w (registryRequest (registry g) name) = Inr resp"
    and "ReadAll resp = Inr content"
    and "UnmarshalRegistryResponse w content = Inr registryResponse"
  shows "fst (getLatestVersion w (registry g) name)
           = Return (Latest (DistTags registryResponse)) None
     \<and> fst (resolveTag g w (Getenv w ''TOKEN''))
           = Inr (g\<lparr>tag := ''v'' @ Latest (DistTags registryResponse)\<rparr>)
     \<and> (\<forall>r rel. main g w = Some r \<and> built r = Some rel \<longrightarrow>
          TagName rel = ''v'' @ Latest (DistTags registryResponse)
          \<and> Release.Name rel = ''v'' @ Latest (DistTags registryResponse))"
proof -
  have v: "getLatestVersion w (registry g) name
      = (Return (Latest (DistTags registryResponse)) None,
         [Http (registryRequest (registry g) name)])"
    using assms(4-7) by (simp add: getLatestVersion_def Let_def)
  have t: "resolveTag g w (Getenv w ''TOKEN'')
      = (Inr (g\<lparr>tag := ''v'' @ Latest (DistTags registryResponse)\<rparr>),
         c1 @ [Http (registryRequest (registry g) name)])"
    using assms(1-3) v by (simp add: resolveTag_def)
  have "TagName rel = ''v'' @ Latest (DistTags registryResponse)
      \<and> Release.Name rel = ''v'' @ Latest (DistTags registryResponse)"
    if m: "main g w = Some r" and b: "built r = Some rel" for r rel
  proof -
    from main_built [OF m b] t obtain out g2 c2 cs where
      p: "resolvePR (g\<lparr>tag := ''v'' @ Latest (DistTags registryResponse)\<rparr>) w
            (Getenv w ''TOKEN'') = (Inr g2, c2)"
      and r: "r = releaseStage g2 w (Getenv w ''TOKEN'') out cs"
      by auto
    from resolvePR_Inr(1) [OF p]
    have "tag g2 = ''v'' @ Latest (DistTags registryResponse)"
      by (cases g2) (auto simp: globals.defs)
    moreover from releaseStage_built [of g2 w "Getenv w ''TOKEN''" out cs rel] b r
    have "TagName rel = tag g2 \<and> Release.Name rel = tag g2" by auto
    ultimately show ?thesis by simp
  qed
  with v t show ?thesis by simp
qed

theorem resolved_tag_is_v_version_witness:
  "fst (resolveTag (flags ''acme'' ''widget'' ''https://registry.example'')
       (answering ''2.3.0'' [\<lparr>PR.Number = 42\<rparr>] ''main'' []) [])
     = Inr ((flags ''acme'' ''widget'' ''https://registry.example'')\<lparr>tag := ''v2.3.0''\<rparr>)
   \<and> fst (resolveTag (flags ''acme'' ''widget'' ''https://registry.example'')
       (answering ''v1.0.0'' [\<lparr>PR.Number = 42\<rparr>] ''main'' []) [])
     = Inr ((flags ''acme'' ''widget'' ''https://registry.example'')\<lparr>tag := ''vv1.0.0''\<rparr>)
   \<and> fst (getLatestVersion (answering ''not a version'' [] [] []) ''https://registry.example''
       ''widget-pkg'') = Return ''not a version'' None"
proof -
  let ?g = "flags ''acme'' ''widget'' ''https://registry.example''"
  have g: "tag ?g = []" "repo ?g \<noteq> []" "owner ?g = ''acme''" "repo ?g = ''widget''"
    "registry ?g = ''https://registry.example''"
    by (simp_all add: flags_def)
  have e: "Getenv (answering v prs b ns) ''TOKEN'' = []" for v prs b ns
    by (simp add: answering_def)
  have n: "getNpmPackageName (answering v prs b ns) [] ''acme'' ''widget''
      = (Return ''widget-pkg'' None, [Graphql (packageJsonRequest [] ''acme'' ''widget'')])"
    for v prs b ns
    by (simp add: getNpmPackageName_def answering_def)
  have r: "NewRequest (answering v prs b ns) m u = None" for v prs b ns m u
    by (simp add: answering_def)
  have d: "Do (answering v prs b ns) req = Inr \<lparr>StatusCode = 200, ReadAll = Inr []\<rparr>"
    for v prs b ns req
    by (simp add: answering_def)
  have u: "UnmarshalRegistryResponse (answering v prs b ns) content
      = Inr \<lparr>DistTags = \<lparr>Latest = v\<rparr>\<rparr>" for v prs b ns content
    by (simp add: answering_def)
  have w: "fst (getLatestVersion (answering v prs b ns) ''https://registry.example''
        ''widget-pkg'') = Return v None
     \<and> fst (resolveTag ?g (answering v prs b ns) []) = Inr (?g\<lparr>tag := ''v'' @ v\<rparr>)"
    for v prs b ns
    using resolved_tag_is_v_version
      [of ?g "answering v prs b ns" "''widget-pkg''"
        "[Graphql (packageJsonRequest [] ''acme'' ''widget'')]"
        "\<lparr>StatusCode = 200, ReadAll = Inr []\<rparr>" "[]" "\<lparr>DistTags = \<lparr>Latest = v\<rparr>\<rparr>"]
    by (simp add: g e n r d u)
  from w [of "''2.3.0''"] w [of "''v1.0.0''"] w [of "''not a version''"]
  show ?thesis by simp
qed

section \<open>Properties of the release\<close>

text \<open>
  C5. Every \<open>Release\<close> that \<open>main\<close> builds was built from the one pull request whose
  details the run fetched: the pull request given by the flag when that is not zero, the
  looked-up one otherwise. Its target is the base branch of that pull request when the
  variable of the flag \<open>targetRef\<close> is empty, which is the default that \<open>init\<close> gives it
  when the flag is absent, and the value of the flag, unchanged, otherwise.
\<close>

theorem targetCommitish_defaults_to_base:
  assumes "main g w = Some r" and "built r = Some rel"
  shows "\<exists>n respData. 0 < n \<and> (pr g \<noteq> 0 \<longrightarrow> n = pr g)
     \<and> filter isDetailsFetch (calls r)
         = [Graphql (pullRequestRequest (Getenv w ''TOKEN'') (owner g) (repo g) n)]
     \<and> Run w (pullRequestRequest (Getenv w ''TOKEN'') (owner g) (repo g) n) = Inr respData
     \<and> TargetCommitish rel =
         (if targetCommitish g = [] then BaseRefName (PullRequest (Repository respData))
          else targetCommitish g)"
proof -
  let ?tok = "Getenv w ''TOKEN''"
  from main_built [OF assms] obtain out g1 c1 g2 c2 where
    t: "resolveTag g w ?tok = (Inr g1, c1)"
    and p: "resolvePR g1 w ?tok = (Inr g2, c2)"
    and r: "r = releaseStage g2 w ?tok out (c1 @ c2)"
    by blast
  from assms(2) r have b: "built (releaseStage g2 w ?tok out (c1 @ c2)) = Some rel" by simp
  have o: "owner g2 = owner g" "repo g2 = repo g" "targetCommitish g2 = targetCommitish g"
    using resolveTag_fields [OF t] resolvePR_fields [OF p] by simp_all
  have n: "pr g \<noteq> 0 \<longrightarrow> pr g2 = pr g"
    using resolveTag_fields(5) [OF t] resolvePR_Inr(2) [OF p] by auto
  from releaseStage_built [OF b] obtain repository c where
    pos: "pr g2 > 0"
    and f: "getRepositoryPullRequest w ?tok (owner g2) (repo g2) (pr g2)
        = (Return repository None, c)"
    and rel: "TargetCommitish rel = (if targetCommitish g2 = []
        then BaseRefName (PullRequest repository) else targetCommitish g2)"
    by auto
  from f have run: "Run w (pullRequestRequest ?tok (owner g) (repo g) (pr g2))
      = Inr \<lparr>Repository = repository\<rparr>"
    by (simp add: getRepositoryPullRequest_Return o)
  have "filter isDetailsFetch (c1 @ c2) = []"
    using resolveTag_calls [OF t] resolvePR_calls [OF p] by simp
  with releaseStage_fetches_once [OF b] r
  have fetch: "filter isDetailsFetch (calls r)
      = [Graphql (pullRequestRequest ?tok (owner g) (repo g) (pr g2))]"
    by (simp add: o)
  from pos n fetch run rel show ?thesis
    by (intro exI [of _ "pr g2"] exI [of _ "\<lparr>Repository = repository\<rparr>"]) (simp add: o)
qed

theorem targetCommitish_defaults_to_base_witness:
  "(\<exists>r rel. main ((flags ''acme'' ''widget'' ''https://registry.example'')
         \<lparr>tag := ''v1'', pr := 42, dryRun := True\<rparr>)
       (answering [] [] ''main'' []) = Some r
     \<and> built r = Some rel \<and> TargetCommitish rel = ''main'')
   \<and> (\<exists>r rel. main ((flags ''acme'' ''widget'' ''https://registry.example'')
         \<lparr>tag := ''v1'', targetCommitish := ''release-1.x'', pr := 42, dryRun := True\<rparr>)
       (answering [] [] ''main'' []) = Some r
     \<and> built r = Some rel \<and> TargetCommitish rel = ''release-1.x'')"
proof -
  let ?ga = "(flags ''acme'' ''widget'' ''https://registry.example'')
         \<lparr>tag := ''v1'', pr := 42, dryRun := True\<rparr>"
  let ?gb = "(flags ''acme'' ''widget'' ''https://registry.example'')
         \<lparr>tag := ''v1'', targetCommitish := ''release-1.x'', pr := 42, dryRun := True\<rparr>"
  let ?w = "answering [] [] ''main'' []"
  let ?rela = "\<lparr>TagName = ''v1'', TargetCommitish = ''main'', Name = ''v1'', Body = []\<rparr>"
  let ?relb = "\<lparr>TagName = ''v1'', TargetCommitish = ''release-1.x'', Name = ''v1'', Body = []\<rparr>"
  let ?cs = "[Graphql (pullRequestRequest [] ''acme'' ''widget'' 42)]"
  have m1: "main ?ga ?w = Some \<lparr>exitStatus = 0, fatal = None,
      stdout = ''acme/widget - main:v1'' @ [newline], calls = ?cs,
      built = Some ?rela, published = None\<rparr>"
    by (simp add: run_defs answering_sel mkRepository_sel flags_def buildChangelog_def)
  have m2: "main ?gb ?w = Some \<lparr>exitStatus = 0, fatal = None,
      stdout = ''acme/widget - release-1.x:v1'' @ [newline], calls = ?cs,
      built = Some ?relb, published = None\<rparr>"
    by (simp add: run_defs answering_sel mkRepository_sel flags_def buildChangelog_def)
  have t1: "TargetCommitish ?rela = ''main''"
    using targetCommitish_defaults_to_base [OF m1, of ?rela]
    by (auto simp: answering_sel mkRepository_sel flags_def)
  have t2: "TargetCommitish ?relb = ''release-1.x''"
    using targetCommitish_defaults_to_base [OF m2, of ?relb]
    by (auto simp: answering_sel mkRepository_sel flags_def)
  from m1 t1 m2 t2 show ?thesis by simp
qed

text \<open>
  C7. When the tag is empty at line 221 and the pull request number is positive, the
  process ends with status 1 through \<open>log.Fatal\<close>, having built no \<open>Release\<close>, printed
  nothing and made no request but the fetch of the details. In every run of \<open>main\<close> the
  tag at that line is not empty, a published \<open>Release\<close> has a tag name that is not empty,
  and a publish request is the request of \<open>publishRelease\<close> for that \<open>Release\<close>.
\<close>

theorem publish_needs_tag:
  "(tag g = [] \<and> 0 < pr g \<longrightarrow>
      exitStatus (releaseStage g w githubToken out cs) = 1
      \<and> fatal (releaseStage g w githubToken out cs) =
          Some (case Run w (pullRequestRequest githubToken (owner g) (repo g) (pr g)) of
                  Inl err \<Rightarrow> err
                | Inr respData \<Rightarrow> ''Need to provide tag to publish release'')
      \<and> built (releaseStage g w githubToken out cs) = None
      \<and> published (releaseStage g w githubToken out cs) = None
      \<and> stdout (releaseStage g w githubToken out cs) = out
      \<and> calls (releaseStage g w githubToken out cs) =
          cs @ [Graphql (pullRequestRequest githubToken (owner g) (repo g) (pr g))])
   \<and> (\<forall>g1 c1 g2 c2. repo g \<noteq> [] \<and> resolveTag g w githubToken = (Inr g1, c1)
        \<and> resolvePR g1 w githubToken = (Inr g2, c2) \<longrightarrow> tag g2 \<noteq> [])
   \<and> (\<forall>r rel. main g w = Some r \<and> published r = Some rel \<longrightarrow>
        TagName rel \<noteq> [] \<and> built r = Some rel)
   \<and> (\<forall>r. main g w = Some r \<and> filter isPublish (calls r) \<noteq> [] \<longrightarrow>
        (\<exists>rel content. published r = Some rel \<and> TagName rel \<noteq> []
           \<and> MarshalRelease w rel = Inr content
           \<and> filter isPublish (calls r) =
               [Http (releasesRequest (Getenv w ''TOKEN'') (owner g) (repo g) content)]))"
proof (intro conjI allI impI)
  assume a: "tag g = [] \<and> 0 < pr g"
  then show "exitStatus (releaseStage g w githubToken out cs) = 1"
    and "fatal (releaseStage g w githubToken out cs) =
          Some (case Run w (pullRequestRequest githubToken (owner g) (repo g) (pr g)) of
                  Inl err \<Rightarrow> err
                | Inr respData \<Rightarrow> ''Need to provide tag to publish release'')"
    and "built (releaseStage g w githubToken out cs) = None"
    and "published (releaseStage g w githubToken out cs) = None"
    and "stdout (releaseStage g w githubToken out cs) = out"
    and "calls (releaseStage g w githubToken out cs) =
          cs @ [Graphql (pullRequestRequest githubToken (owner g) (repo g) (pr g))]"
    by (simp_all add: releaseStage_def die_def getRepositoryPullRequest_def Let_def
        split: sum.splits)
next
  fix g1 c1 g2 c2
  assume "repo g \<noteq> [] \<and> resolveTag g w githubToken = (Inr g1, c1)
      \<and> resolvePR g1 w githubToken = (Inr g2, c2)"
  then show "tag g2 \<noteq> []"
    using resolveTag_Inr(3) [of g w githubToken g1 c1]
      resolvePR_fields(5) [of g1 w githubToken g2 c2]
    by simp
next
  fix r rel
  assume a: "main g w = Some r \<and> published r = Some rel"
  then have b: "built r = Some rel" using main_published [of g w r rel] by simp
  then show "built r = Some rel" .
  from a b main_built [of g w r rel] obtain out g2 cs where
    "r = releaseStage g2 w (Getenv w ''TOKEN'') out cs" by blast
  with b releaseStage_built [of g2 w "Getenv w ''TOKEN''" out cs rel]
  show "TagName rel \<noteq> []" by auto
next
  fix r
  assume a: "main g w = Some r \<and> filter isPublish (calls r) \<noteq> []"
  then have m: "main g w = Some r" by simp
  from a main_publish_calls [OF m] obtain rel where
    p: "published r = Some rel"
    and c: "filter isPublish (calls r)
        = snd (publishRelease w (Getenv w ''TOKEN'') (owner g) (repo g) rel)"
    by (cases "published r") auto
  from a c obtain content where
    mr: "MarshalRelease w rel = Inr content"
    and c': "filter isPublish (calls r)
        = [Http (releasesRequest (Getenv w ''TOKEN'') (owner g) (repo g) content)]"
    by (auto simp: publishRelease_snd split: sum.splits option.splits)
  from m p have b: "built r = Some rel" by (rule main_published)
  from m b main_built [of g w r rel] obtain out g2 cs where
    "r = releaseStage g2 w (Getenv w ''TOKEN'') out cs" by blast
  with b releaseStage_built [of g2 w "Getenv w ''TOKEN''" out cs rel]
  have "TagName rel \<noteq> []" by auto
  with p mr c' show "\<exists>rel content. published r = Some rel \<and> TagName rel \<noteq> []
           \<and> MarshalRelease w rel = Inr content
           \<and> filter isPublish (calls r) =
               [Http (releasesRequest (Getenv w ''TOKEN'') (owner g) (repo g) content)]"
    by blast
qed

theorem publish_needs_tag_witness:
  "exitStatus (releaseStage ((flags ''acme'' ''widget'' ''https://registry.example'')
        \<lparr>pr := 42\<rparr>) (answering [] [] ''main'' []) [] [] []) = 1
   \<and> fatal (releaseStage ((flags ''acme'' ''widget'' ''https://registry.example'')
        \<lparr>pr := 42\<rparr>) (answering [] [] ''main'' []) [] [] [])
       = Some ''Need to provide tag to publish release''
   \<and> calls (releaseStage ((flags ''acme'' ''widget'' ''https://registry.example'')
        \<lparr>pr := 42\<rparr>) (answering [] [] ''main'' []) [] [] [])
       = [Graphql (pullRequestRequest [] ''acme'' ''widget'' 42)]
   \<and> (\<exists>r rel. main (flags ''acme'' ''widget'' ''https://registry.example'')
          (answering ''2.3.0'' [\<lparr>PR.Number = 42\<rparr>, \<lparr>PR.Number = 7\<rparr>] ''main''
            [mkCommit ''fix bug'' ''alice'', mkCommit ''add test'' ''bob'']) = Some r
        \<and> published r = Some rel \<and> TagName rel = ''v2.3.0'' \<and> TagName rel \<noteq> []
        \<and> filter isPublish (calls r) = [Http (releasesRequest [] ''acme'' ''widget'' ''v2.3.0'')])"
proof -
  let ?h = "(flags ''acme'' ''widget'' ''https://registry.example'')\<lparr>pr := 42\<rparr>"
  let ?g = "flags ''acme'' ''widget'' ''https://registry.example''"
  let ?w = "answering ''2.3.0'' [\<lparr>PR.Number = 42\<rparr>, \<lparr>PR.Number = 7\<rparr>] ''main''
            [mkCommit ''fix bug'' ''alice'', mkCommit ''add test'' ''bob'']"
  have s: "exitStatus (releaseStage ?h (answering [] [] ''main'' []) [] [] []) = 1
     \<and> fatal (releaseStage ?h (answering [] [] ''main'' []) [] [] [])
         = Some ''Need to provide tag to publish release''
     \<and> calls (releaseStage ?h (answering [] [] ''main'' []) [] [] [])
         = [Graphql (pullRequestRequest [] ''acme'' ''widget'' 42)]"
    using publish_needs_tag [of ?h "answering [] [] ''main'' []" "[]" "[]" "[]",
        THEN conjunct1]
    by (simp add: flags_def answering_sel)
  note m = full_run
  from publish_needs_tag [of ?g ?w "[]", THEN conjunct2, THEN conjunct2, THEN conjunct1] m
  have t: "TagName \<lparr>TagName = ''v2.3.0'', TargetCommitish = ''main'', Name = ''v2.3.0'',
       Body = buildChangelog [mkCommit ''fix bug'' ''alice'', mkCommit ''add test'' ''bob'']\<rparr>
       \<noteq> []"
    by simp
  have c: "filter isPublish [Graphql (packageJsonRequest [] ''acme'' ''widget''),
       Http (registryRequest ''https://registry.example'' ''widget-pkg''),
       Http (pullsRequest (flags ''acme'' ''widget'' ''https://registry.example'') []
         ''acme'' ''widget''),
       Graphql (pullRequestRequest [] ''acme'' ''widget'' 42),
       Http (releasesRequest [] ''acme'' ''widget'' ''v2.3.0'')]
     = [Http (releasesRequest [] ''acme'' ''widget'' ''v2.3.0'')]"
    by (simp add: isPublish_def registryRequest_def pullsRequest_def releasesRequest_def)
  from s m t c show ?thesis by simp
qed

section \<open>Dry runs\<close>




section \<open>Properties of the publish operation\<close>

text \<open>
  C8. \<open>publishRelease\<close> returns nil exactly when the release was marshalled, the request
  was constructed and \<open>client.Do\<close> gave a response, whatever the status code and the body
  of that response are; it has then made that one request. It returns an error exactly
  when marshalling fails or \<open>client.Do\<close> fails. When \<open>http.NewRequest\<close> fails it
  does not return: it ends the process through \<open>log.Fatal\<close>.
\<close>

theorem publishRelease_outcomes:
  "(MarshalRelease w release = Inr content
      \<and> NewRequest w ''POST'' (req_url (releasesRequest githubToken owner' repo' content)) = None
      \<and> Do w (releasesRequest githubToken owner' repo' content) = Inr resp
    \<longrightarrow> publishRelease w githubToken owner' repo' release =
          (Return () None, [Http (releasesRequest githubToken owner' repo' content)]))
   \<and> (fst (publishRelease w githubToken owner' repo' release) = Return () None \<longleftrightarrow>
        (\<exists>content resp. MarshalRelease w release = Inr content
           \<and> NewRequest w ''POST'' (req_url (releasesRequest githubToken owner' repo' content)) = None
           \<and> Do w (releasesRequest githubToken owner' repo' content) = Inr resp))
   \<and> (fst (publishRelease w githubToken owner' repo' release) = Return () (Some err) \<longleftrightarrow>
        MarshalRelease w release = Inl err
        \<or> (\<exists>content. MarshalRelease w release = Inr content
             \<and> NewRequest w ''POST'' (req_url (releasesRequest githubToken owner' repo' content)) = None
             \<and> Do w (releasesRequest githubToken owner' repo' content) = Inl err))
   \<and> (fst (publishRelease w githubToken owner' repo' release) = Fatal err \<longleftrightarrow>
        (\<exists>content. MarshalRelease w release = Inr content
           \<and> NewRequest w ''POST'' (req_url (releasesRequest githubToken owner' repo' content))
               = Some err))"
  by (auto simp: publishRelease_def Let_def split: sum.splits option.splits)

theorem publishRelease_outcomes_witness:
  "publishRelease (rejecting (answering [] [] [] [])) ''secret'' ''acme'' ''widget''
       \<lparr>TagName = ''v2.3.0'', TargetCommitish = ''main'', Name = ''v2.3.0'', Body = []\<rparr>
     = (Return () None, [Http (releasesRequest ''secret'' ''acme'' ''widget'' ''v2.3.0'')])
   \<and> fst (publishRelease (unreachable (answering [] [] [] [])) ''secret'' ''acme'' ''widget''
       \<lparr>TagName = ''v2.3.0'', TargetCommitish = ''main'', Name = ''v2.3.0'', Body = []\<rparr>)
     = Return () (Some ''connection refused'')"
  using publishRelease_outcomes
      [of "rejecting (answering [] [] [] [])"
        "\<lparr>TagName = ''v2.3.0'', TargetCommitish = ''main'', Name = ''v2.3.0'', Body = []\<rparr>"
        "''v2.3.0''" "''secret''" "''acme''" "''widget''"
        "\<lparr>StatusCode = 422, ReadAll = Inr ''Validation Failed: already_exists''\<rparr>"]
    publishRelease_outcomes
      [of "unreachable (answering [] [] [] [])"
        "\<lparr>TagName = ''v2.3.0'', TargetCommitish = ''main'', Name = ''v2.3.0'', Body = []\<rparr>"
        "''v2.3.0''" "''secret''" "''acme''" "''widget''" _ "''connection refused''"]
  by (simp add: rejecting_def unreachable_def answering_def)

text \<open>
  The owner \<open>%zz\<close> makes the URL of the releases endpoint malformed: the request cannot be
  constructed, and \<open>publishRelease\<close> returns no error, it ends the process.
\<close>

theorem publishRelease_request_construction_fatal:
  "fst (publishRelease (strictURLs (answering [] [] [] [])) ''secret'' ''%zz'' ''widget''
       \<lparr>TagName = ''v2.3.0'', TargetCommitish = ''main'', Name = ''v2.3.0'', Body = []\<rparr>)
     = Fatal ''invalid URL escape''
   \<and> \<not> (\<exists>err. fst (publishRelease (strictURLs (answering [] [] [] [])) ''secret'' ''%zz''
       ''widget''
       \<lparr>TagName = ''v2.3.0'', TargetCommitish = ''main'', Name = ''v2.3.0'', Body = []\<rparr>)
     = Return () (Some err))"
proof -
  have c: "Contains ''https://api.github.com/repos/%zz/widget/releases'' ''%zz''"
    unfolding Contains_def by code_simp
  have "fst (publishRelease (strictURLs (answering [] [] [] [])) ''secret'' ''%zz'' ''widget''
       \<lparr>TagName = ''v2.3.0'', TargetCommitish = ''main'', Name = ''v2.3.0'', Body = []\<rparr>)
     = Fatal ''invalid URL escape''"
    using c by (simp add: publishRelease_def strictURLs_def answering_def releasesRequest_def)
  then show ?thesis by simp
qed

section \<open>The number of commits\<close>




section \<open>Runs without a pull request\<close>

text \<open>
  C10. When the required flags are given, the trigger stage is over, and the resolution
  of the tag and of the pull request end with a pull request number that is not positive,
  \<open>main\<close> returns: the process ends with status 0 and no fatal message, it has made only
  the requests of the two resolutions, none of which fetches the details of a pull request
  or publishes, it has built no \<open>Release\<close>, and its standard output holds what the
  trigger listener printed and nothing else: nothing at all when the trigger stage is
  skipped.
\<close>

theorem not_positive_pr_ends_quietly:
  assumes "repo g \<noteq> []" and "owner g \<noteq> []" and "registry g \<noteq> []"
    and "triggerStage g w (Getenv w ''KAFKA_BOOTSTRAP_SERVERS'') = Some (None, pre, n)"
    and "resolveTag g w (Getenv w ''TOKEN'') = (Inr g1, c1)"
    and "resolvePR g1 w (Getenv w ''TOKEN'') = (Inr g2, c2)"
    and "pr g2 \<le> 0"
  shows "main g w = Some \<lparr>exitStatus = 0, fatal = None, stdout = pre, calls = c1 @ c2,
        built = None, published = None\<rparr>
     \<and> filter isDetailsFetch (c1 @ c2) = [] \<and> filter isPublish (c1 @ c2) = []
     \<and> (Getenv w ''KAFKA_BOOTSTRAP_SERVERS'' = [] \<or> kafkaTopic g = [] \<longrightarrow> pre = [])
     \<and> (pr g \<noteq> 0 \<longrightarrow> pr g2 = pr g \<and> c2 = [])"
proof -
  from assms(7) have "\<not> pr g2 > 0" by simp
  with main_run [OF assms(1-6)]
  have "main g w = Some \<lparr>exitStatus = 0, fatal = None, stdout = pre, calls = c1 @ c2,
        built = None, published = None\<rparr>"
    by (simp add: releaseStage_not_positive)
  moreover have "filter isDetailsFetch (c1 @ c2) = [] \<and> filter isPublish (c1 @ c2) = []"
    using resolveTag_calls [OF assms(5)] resolvePR_calls [OF assms(6)] by simp
  moreover have "Getenv w ''KAFKA_BOOTSTRAP_SERVERS'' = [] \<or> kafkaTopic g = [] \<longrightarrow> pre = []"
    using triggerStage_skipped [of w g] assms(4) by auto
  moreover have "pr g \<noteq> 0 \<longrightarrow> pr g2 = pr g \<and> c2 = []"
    using resolveTag_fields(5) [OF assms(5)] resolvePR_Inr(2) [OF assms(6)] by auto
  ultimately show ?thesis by simp
qed

theorem not_positive_pr_ends_quietly_witness:
  "main ((flags ''acme'' ''widget'' ''https://registry.example'')\<lparr>tag := ''v1''\<rparr>)
     (answering [] [] ''main'' [mkCommit ''fix bug'' ''alice'']) =
   Some \<lparr>exitStatus = 0, fatal = None, stdout = [],
     calls = [Http (pullsRequest (flags ''acme'' ''widget'' ''https://registry.example'') []
         ''acme'' ''widget'')],
     built = None, published = None\<rparr>
   \<and> main ((flags ''acme'' ''widget'' ''https://registry.example'')
       \<lparr>tag := ''v1'', pr := - 1\<rparr>)
     (answering [] [] ''main'' [mkCommit ''fix bug'' ''alice'']) =
   Some \<lparr>exitStatus = 0, fatal = None, stdout = [], calls = [], built = None,
     published = None\<rparr>"
proof -
  let ?g = "(flags ''acme'' ''widget'' ''https://registry.example'')\<lparr>tag := ''v1''\<rparr>"
  let ?h = "(flags ''acme'' ''widget'' ''https://registry.example'')\<lparr>tag := ''v1'', pr := - 1\<rparr>"
  let ?w = "answering [] [] ''main'' [mkCommit ''fix bug'' ''alice'']"
  let ?c = "[Http (pullsRequest (flags ''acme'' ''widget'' ''https://registry.example'') []
         ''acme'' ''widget'')]"
  have a: "main ?g ?w = Some \<lparr>exitStatus = 0, fatal = None, stdout = [], calls = [] @ ?c,
        built = None, published = None\<rparr>"
    using not_positive_pr_ends_quietly [of ?g ?w "[]" 0 ?g "[]" "?g\<lparr>pr := 0\<rparr>" ?c]
    by (simp add: flags_def triggerStage_def resolveTag_def resolvePR_def
        getPullRequestNumber_def answering_sel pullsRequest_def)
  have b: "main ?h ?w = Some \<lparr>exitStatus = 0, fatal = None, stdout = [], calls = [] @ [],
        built = None, published = None\<rparr>"
    using not_positive_pr_ends_quietly [of ?h ?w "[]" 0 ?h "[]" ?h "[]"]
    by (simp add: flags_def triggerStage_def resolveTag_def resolvePR_def answering_sel)
  from a b show ?thesis by simp
qed

text \<open>
  With a broker and a topic configured and a pull request number that is not positive,
  the process ends with status 0 after the listener's lines were printed.
\<close>

theorem not_positive_pr_after_listener_prints:
  "main ((flags ''acme'' ''widget'' ''https://registry.example'')
       \<lparr>tag := ''v1'', pr := - 1, kafkaTopic := ''releases''\<rparr>)
     (withBroker [Message ''widget v2'']
       (answering [] [] ''main'' [mkCommit ''fix bug'' ''alice''])) =
   Some \<lparr>exitStatus = 0, fatal = None,
     stdout = ''Subscribed to releasesand waiting for message'' @ [newline, newline, CHR 0x22]
       @ ''widget v2'' @ [CHR 0x22, newline] @ ''widget has been published'' @ [newline],
     calls = [], built = None, published = None\<rparr>
   \<and> ''Subscribed to releasesand waiting for message'' @ [newline, newline, CHR 0x22]
       @ ''widget v2'' @ [CHR 0x22, newline] @ ''widget has been published'' @ [newline]
     \<noteq> []"
  by (simp add: run_defs listener_run withBroker_sel answering_sel flags_def)

end
